theory Spec2Isabelle
  imports Main "HOL-Library.Sublist"
begin

section \<open>Data model (App.svelte, type definitions)\<close>

text \<open>
  \<^verbatim>\<open>type TaskStatus = 'Pending' | 'In-Progress' | 'Completed'\<close> and the filter type
  \<^verbatim>\<open>TaskStatus | 'All'\<close> of the store \<^verbatim>\<open>filterStatus\<close>; the literal
  \<^verbatim>\<open>'All'\<close> is the constructor \<open>All_s\<close>, since \<open>All\<close> is the universal quantifier of HOL.
\<close>

datatype TaskStatus = Pending | In_Progress | Completed

datatype StatusFilter = All_s | Only TaskStatus

text \<open>
  \<^verbatim>\<open>interface Task { id; title; description; status; createdAt }\<close>. All five fields are
  JavaScript strings (the status one of three literals). A string is modelled as the list
  of its code units, here the units below 256. The field \<^verbatim>\<open>id\<close> is called \<open>id_t\<close>,
  since \<open>id\<close> is the identity function of HOL.
\<close>

record Task =
  id_t :: string
  title :: string
  description :: string
  status :: TaskStatus
  createdAt :: string

definition MAX_CHARACTERS :: nat where
  "MAX_CHARACTERS = 500"

section \<open>The string built-ins the component calls\<close>

text \<open>
  \<^verbatim>\<open>String.prototype.toLowerCase\<close> on code units below 256: the letters A to Z and the
  Latin-1 capitals U+00C0 to U+00DE (without the multiplication sign U+00D7) move up by 32,
  every other unit stays.
\<close>

definition toLowerChar :: "char \<Rightarrow> char" where
  "toLowerChar c =
     (let n = (of_char c :: nat) in
      if (65 \<le> n \<and> n \<le> 90) \<or> (192 \<le> n \<and> n \<le> 222 \<and> n \<noteq> 215)
      then char_of (n + 32) else c)"

definition toLowerCase :: "string \<Rightarrow> string" where
  "toLowerCase s = map toLowerChar s"

text \<open>
  \<^verbatim>\<open>String.prototype.includes\<close>: \<open>str_includes s sub\<close> is \<^verbatim>\<open>s.includes(sub)\<close>, true when
  \<open>sub\<close> occurs in \<open>s\<close> as a contiguous run starting at some position.
\<close>

fun str_includes :: "string \<Rightarrow> string \<Rightarrow> bool" where
  "str_includes [] sub = (sub = [])"
| "str_includes (c # cs) sub = (prefix sub (c # cs) \<or> str_includes cs sub)"

text \<open>
  \<^verbatim>\<open>String.prototype.trim\<close> strips white space and line terminators from both ends. Below
  256 these are TAB, LF, VT, FF, CR, SPACE and the no-break space U+00A0.
\<close>

definition isWhiteSpace :: "char \<Rightarrow> bool" where
  "isWhiteSpace c = ((of_char c :: nat) \<in> {9, 10, 11, 12, 13, 32, 160})"

definition trim :: "string \<Rightarrow> string" where
  "trim s = rev (dropWhile isWhiteSpace (rev (dropWhile isWhiteSpace s)))"

section \<open>Reactive filtering and searching (\<^verbatim>\<open>filteredTasks\<close>)\<close>

text \<open>
  \<^verbatim>\<open>
  const filteredByStatus = $filterStatus === 'All'
    ? $tasks
    : $tasks.filter(task => task.status === $filterStatus);
  return $searchTerm
    ? filteredByStatus.filter(task =>
        task.title.toLowerCase().includes($searchTerm.toLowerCase()) ||
        task.description.toLowerCase().includes($searchTerm.toLowerCase()))
    : filteredByStatus;
  \<close>
  A JavaScript string is truthy exactly when it is not empty.
\<close>

definition filteredByStatus :: "Task list \<Rightarrow> StatusFilter \<Rightarrow> Task list" where
  "filteredByStatus ts f =
     (if f = All_s then ts else filter (\<lambda>task. Only (status task) = f) ts)"

definition filteredTasks :: "Task list \<Rightarrow> string \<Rightarrow> StatusFilter \<Rightarrow> Task list" where
  "filteredTasks ts term f =
     (if term \<noteq> []
      then filter (\<lambda>task.
             str_includes (toLowerCase (title task)) (toLowerCase term) \<or>
             str_includes (toLowerCase (description task)) (toLowerCase term))
           (filteredByStatus ts f)
      else filteredByStatus ts f)"

subsection \<open>The reference definition of the visible set, from the specification\<close>

text \<open>
  The specification's two predicates: a task passes the status predicate when the filter is
  "All" or equals its status; it passes the search predicate when the term is empty or the
  lowercased term is a substring (\<^const>\<open>sublist\<close>) of the lowercased title or of the
  lowercased description. The visible set keeps exactly the tasks passing both.
\<close>

definition spec_status_pred :: "StatusFilter \<Rightarrow> Task \<Rightarrow> bool" where
  "spec_status_pred f task = (case f of All_s \<Rightarrow> True | Only st \<Rightarrow> status task = st)"

definition spec_search_pred :: "string \<Rightarrow> Task \<Rightarrow> bool" where
  "spec_search_pred term task =
     (case term of
        [] \<Rightarrow> True
      | _ # _ \<Rightarrow> sublist (toLowerCase term) (toLowerCase (title task)) \<or>
                sublist (toLowerCase term) (toLowerCase (description task)))"

definition spec_derived :: "Task list \<Rightarrow> StatusFilter \<Rightarrow> string \<Rightarrow> Task list" where
  "spec_derived ts f term =
     filter (spec_search_pred term) (filter (spec_status_pred f) ts)"

section \<open>The component's state\<close>

text \<open>
  The bootstrap data \<^verbatim>\<open>initialTasks\<close>. Each \<^verbatim>\<open>createdAt\<close> is the display string that
  \<^verbatim>\<open>toLocaleDateString\<close> returns for a date read from the clock when the script starts
  (one, two and three days back, and the day itself); the four strings are inputs.
\<close>

record SeedDates =
  dayBefore1 :: string
  dayBefore2 :: string
  dayBefore3 :: string
  dayOfLoad :: string

definition initialTasks :: "SeedDates \<Rightarrow> Task list" where
  "initialTasks dates =
     [\<lparr>id_t = ''1'',
        title = ''Design Dashboard UI with a focus on a clean and modern user experience'',
        description =
          ''Create a clean and modern design for the task dashboard, including wiref'' @
          ''rames and mockups that are responsive on all devices. The design should '' @
          ''be simple, intuitive, and easy to navigate for users of all skill levels'' @
          ''. Pay special attention to color palettes and typography to create a vis'' @
          ''ually appealing interface. It is important to create a comprehensive des'' @
          ''ign system that will allow for easy scalability in the future. The desig'' @
          ''n should also include mockups for both light and dark mode.'',
        status = In_Progress,
        createdAt = dayBefore1 dates\<rparr>,
      \<lparr>id_t = ''2'',
        title = ''Implement Task Creation and management functionality'',
        description =
          ''Develop the form and logic for adding new tasks to the list. This includ'' @
          ''es input validation, status selection, and a confirmation dialog. The im'' @
          ''plementation should be robust and handle potential errors gracefully. It'' @
          '' is a good idea to consider both server-side and client-side validation '' @
          ''to ensure data integrity. The task creation form should also be accessib'' @
          ''le to users with disabilities, following WCAG guidelines.'',
        status = Completed,
        createdAt = dayBefore2 dates\<rparr>,
      \<lparr>id_t = ''3'',
        title = ''Set up Project Environment and configure development tools'',
        description =
          ''Initialize the Svelte, TypeScript, and Tailwind CSS project using Vite o'' @
          ''r SvelteKit. Configure ESLint and Prettier for code quality and consiste'' @
          ''ncy. Set up a component-based architecture for reusability and maintaina'' @
          ''bility across the entire application. It is important to document all th'' @
          ''e setup steps clearly in the project README.'',
        status = Completed,
        createdAt = dayBefore3 dates\<rparr>,
      \<lparr>id_t = ''4'',
        title = ''Add a comprehensive Search and Filter feature to the task list'',
        description =
          ''Implement functionality to search by title and description and filter by'' @
          '' task status. This feature should be fast and responsive, providing imme'' @
          ''diate feedback to the user as they type or change the filter. The search'' @
          '' algorithm should be efficient and case-insensitive. Consider adding a d'' @
          ''ebounce function to the search input to prevent excessive re-renders.'',
        status = Pending,
        createdAt = dayOfLoad dates\<rparr>]"

text \<open>
  The stores and the component variables of the script, in its order. Two more fields hold
  what the script has handed to the timer queue: \<open>loadTimer\<close> says that the
  \<^verbatim>\<open>setTimeout\<close> of \<^verbatim>\<open>onMount\<close> has not fired yet, \<open>addTimers\<close> counts the calls of
  \<^verbatim>\<open>addTask\<close> that are suspended at their \<^verbatim>\<open>await\<close>.
\<close>

record State =
  tasks :: "Task list"
  searchTerm :: string
  filterStatus :: StatusFilter
  isDarkMode :: bool
  isContentLoading :: bool
  isEditModalOpen :: bool
  isDeleteModalOpen :: bool
  isAddModalOpen :: bool
  isLoading :: bool
  currentTask :: "Task option"
  newTaskTitle :: string
  newTaskDescription :: string
  newTaskStatus :: TaskStatus
  confirmMessage :: string
  pendingTaskToDelete :: "Task option"
  loadTimer :: bool
  addTimers :: nat

text \<open>
  The state once \<^verbatim>\<open>onMount\<close> has run: every variable has its initialiser,
  \<^verbatim>\<open>$isDarkMode\<close> holds \<^verbatim>\<open>mediaQuery.matches\<close> (the argument), and the load timer waits.
\<close>

definition mounted :: "bool \<Rightarrow> State" where
  "mounted prefersDark =
     \<lparr>tasks = [], searchTerm = [], filterStatus = All_s, isDarkMode = prefersDark,
      isContentLoading = True, isEditModalOpen = False, isDeleteModalOpen = False,
      isAddModalOpen = False, isLoading = False, currentTask = None,
      newTaskTitle = [], newTaskDescription = [], newTaskStatus = Pending,
      confirmMessage = [], pendingTaskToDelete = None,
      loadTimer = True, addTimers = 0\<rparr>"

section \<open>Event handlers\<close>

text \<open>The callback of the timer in \<^verbatim>\<open>onMount\<close>: \<^verbatim>\<open>tasks.set(initialTasks); isContentLoading = false\<close>.\<close>

definition loadContent :: "SeedDates \<Rightarrow> State \<Rightarrow> State" where
  "loadContent dates s =
     s\<lparr>tasks := initialTasks dates, isContentLoading := False, loadTimer := False\<rparr>"

definition resetNewTaskForm :: "State \<Rightarrow> State" where
  "resetNewTaskForm s =
     s\<lparr>newTaskTitle := [], newTaskDescription := [], newTaskStatus := Pending\<rparr>"

text \<open>
  \<^verbatim>\<open>addTask\<close> is an async function. \<open>addTask_begin\<close> is its run up to the \<^verbatim>\<open>await\<close>: the
  guard \<^verbatim>\<open>if (!newTaskTitle.trim() || newTaskDescription.length > MAX_CHARACTERS) return\<close>,
  then \<^verbatim>\<open>isLoading = true\<close> and the suspension on the 1500 ms timer.
\<close>

definition addTask_begin :: "State \<Rightarrow> State" where
  "addTask_begin s =
     (if trim (newTaskTitle s) = [] \<or> length (newTaskDescription s) > MAX_CHARACTERS
      then s
      else s\<lparr>isLoading := True, addTimers := Suc (addTimers s)\<rparr>)"

text \<open>
  \<open>addTask_resume\<close> is the rest of \<^verbatim>\<open>addTask\<close>, run when the timer fires. It builds
  \<^verbatim>\<open>newTask\<close> from the component variables as they are at that moment, with the results of
  \<^verbatim>\<open>crypto.randomUUID()\<close> and \<^verbatim>\<open>new Date().toLocaleDateString()\<close> (the two arguments),
  appends it with \<^verbatim>\<open>tasks.update(currentTasks => [...currentTasks, newTask])\<close>, then
  \<^verbatim>\<open>isLoading = false; isAddModalOpen = false; resetNewTaskForm()\<close>.
\<close>

definition addTask_resume :: "string \<Rightarrow> string \<Rightarrow> State \<Rightarrow> State" where
  "addTask_resume uuid localeDate s =
     resetNewTaskForm
       (s\<lparr>tasks := tasks s @
                [\<lparr>id_t = uuid, title = newTaskTitle s,
                  description = newTaskDescription s, status = newTaskStatus s,
                  createdAt = localeDate\<rparr>],
          isLoading := False, isAddModalOpen := False,
          addTimers := addTimers s - 1\<rparr>)"

definition handleCancelAddTask :: "State \<Rightarrow> State" where
  "handleCancelAddTask s = (resetNewTaskForm s)\<lparr>isAddModalOpen := False\<rparr>"

text \<open>\<^verbatim>\<open>currentTask = { ...task }; isEditModalOpen = true\<close>: the draft is a copy.\<close>

definition openEditModal :: "Task \<Rightarrow> State \<Rightarrow> State" where
  "openEditModal task s = s\<lparr>currentTask := Some task, isEditModalOpen := True\<rparr>"

text \<open>
  \<^verbatim>\<open>
  if (currentTask && currentTask.description.length <= MAX_CHARACTERS) {
    tasks.update(currentTasks =>
      currentTasks.map(task => task.id === currentTask?.id ? currentTask : task));
    isEditModalOpen = false;
  }
  \<close>
  The array then holds the draft object itself. The model stores its value: the fields of the
  draft are written only through the inputs of the edit form, which is rendered while
  \<^verbatim>\<open>isEditModalOpen\<close> holds; this handler clears that flag, and only \<^verbatim>\<open>openEditModal\<close>
  sets it again, after replacing the draft by a fresh copy.
\<close>

definition saveEditedTask :: "State \<Rightarrow> State" where
  "saveEditedTask s =
     (case currentTask s of
        None \<Rightarrow> s
      | Some ct \<Rightarrow>
          if length (description ct) \<le> MAX_CHARACTERS
          then s\<lparr>tasks := map (\<lambda>task. if id_t task = id_t ct then ct else task) (tasks s),
                 isEditModalOpen := False\<rparr>
          else s)"

definition openDeleteModal :: "Task \<Rightarrow> State \<Rightarrow> State" where
  "openDeleteModal task s =
     s\<lparr>pendingTaskToDelete := Some task,
       confirmMessage :=
         ''Are you sure you want to delete the task titled '' @ [CHR 0x22] @ title task @
         [CHR 0x22] @ ''?'',
       isDeleteModalOpen := True\<rparr>"

definition closeDeleteModal :: "State \<Rightarrow> State" where
  "closeDeleteModal s =
     s\<lparr>isDeleteModalOpen := False, pendingTaskToDelete := None, confirmMessage := []\<rparr>"

text \<open>
  \<^verbatim>\<open>
  if (pendingTaskToDelete) {
    tasks.update(currentTasks =>
      currentTasks.filter(task => task.id !== pendingTaskToDelete?.id));
  }
  closeDeleteModal();
  \<close>
\<close>

definition deleteTask :: "State \<Rightarrow> State" where
  "deleteTask s =
     closeDeleteModal
       (case pendingTaskToDelete s of
          None \<Rightarrow> s
        | Some p \<Rightarrow> s\<lparr>tasks := filter (\<lambda>task. id_t task \<noteq> id_t p) (tasks s)\<rparr>)"

definition toggleDarkMode :: "State \<Rightarrow> State" where
  "toggleDarkMode s = s\<lparr>isDarkMode := \<not> isDarkMode s\<rparr>"

section \<open>The events the page delivers\<close>

text \<open>
  One constructor for each way the markup or the timer queue calls into the script: the two
  timers, the listener on the colour-scheme media query, the bound inputs
  (\<^verbatim>\<open>bind:value\<close>), and the buttons and forms.
\<close>

datatype Event =
    LoadTimerFires
  | SchemeChanges bool
  | ToggleDark
  | TypeSearch string
  | ClickFilter StatusFilter
  | ClickAddNew
  | TypeNewTitle string
  | TypeNewDescription string
  | SelectNewStatus TaskStatus
  | SubmitAdd
  | AddTimerFires string string
  | CancelAdd
  | ClickEdit Task
  | TypeEditTitle string
  | TypeEditDescription string
  | SelectEditStatus TaskStatus
  | CancelEdit
  | SubmitEdit
  | ClickDelete Task
  | CancelDelete
  | ConfirmDelete

text \<open>What the script does on each event.\<close>

fun fire :: "SeedDates \<Rightarrow> Event \<Rightarrow> State \<Rightarrow> State" where
  "fire dates LoadTimerFires s = loadContent dates s"
| "fire dates (SchemeChanges m) s = s\<lparr>isDarkMode := m\<rparr>"
| "fire dates ToggleDark s = toggleDarkMode s"
| "fire dates (TypeSearch v) s = s\<lparr>searchTerm := v\<rparr>"
| "fire dates (ClickFilter f) s = s\<lparr>filterStatus := f\<rparr>"
| "fire dates ClickAddNew s = s\<lparr>isAddModalOpen := True\<rparr>"
| "fire dates (TypeNewTitle v) s = s\<lparr>newTaskTitle := v\<rparr>"
| "fire dates (TypeNewDescription v) s = s\<lparr>newTaskDescription := v\<rparr>"
| "fire dates (SelectNewStatus st) s = s\<lparr>newTaskStatus := st\<rparr>"
| "fire dates SubmitAdd s = addTask_begin s"
| "fire dates (AddTimerFires uuid localeDate) s = addTask_resume uuid localeDate s"
| "fire dates CancelAdd s = handleCancelAddTask s"
| "fire dates (ClickEdit task) s = openEditModal task s"
| "fire dates (TypeEditTitle v) s =
     s\<lparr>currentTask := map_option (\<lambda>ct. ct\<lparr>title := v\<rparr>) (currentTask s)\<rparr>"
| "fire dates (TypeEditDescription v) s =
     s\<lparr>currentTask := map_option (\<lambda>ct. ct\<lparr>description := v\<rparr>) (currentTask s)\<rparr>"
| "fire dates (SelectEditStatus st) s =
     s\<lparr>currentTask := map_option (\<lambda>ct. ct\<lparr>status := st\<rparr>) (currentTask s)\<rparr>"
| "fire dates CancelEdit s = s\<lparr>isEditModalOpen := False\<rparr>"
| "fire dates SubmitEdit s = saveEditedTask s"
| "fire dates (ClickDelete task) s = openDeleteModal task s"
| "fire dates CancelDelete s = closeDeleteModal s"
| "fire dates ConfirmDelete s = deleteTask s"

text \<open>
  When the page can deliver an event, read off the markup:
  \<^item> the header, the filter buttons and the task cards are in the \<^verbatim>\<open>{:else}\<close> branch of
    \<^verbatim>\<open>{#if isContentLoading}\<close>; the Edit and Delete buttons belong to the cards of
    \<^verbatim>\<open>{#each $filteredTasks as task}\<close>;
  \<^item> the add form is inside \<^verbatim>\<open>{#if isAddModalOpen}\<close>; its title input is \<^verbatim>\<open>required\<close>,
    its textarea has \<^verbatim>\<open>maxlength={MAX_CHARACTERS}\<close>, its submit button has
    \<^verbatim>\<open>disabled={isLoading || newTaskDescription.length > MAX_CHARACTERS}\<close>;
  \<^item> the edit form is inside \<^verbatim>\<open>{#if isEditModalOpen}\<close> and \<^verbatim>\<open>{#if currentTask}\<close>, with the
    same \<^verbatim>\<open>required\<close> and \<^verbatim>\<open>maxlength\<close>, and
    \<^verbatim>\<open>disabled={currentTask.description.length > MAX_CHARACTERS}\<close> on its submit button;
  \<^item> the two buttons of the confirmation are inside \<^verbatim>\<open>{#if isDeleteModalOpen}\<close>;
  \<^item> a timer fires only if it was set.
  No modal hides or disables the controls behind it: the overlays are styled boxes, and
  the keyboard still reaches every rendered button.
\<close>

fun enabled :: "State \<Rightarrow> Event \<Rightarrow> bool" where
  "enabled s LoadTimerFires = loadTimer s"
| "enabled s (SchemeChanges m) = True"
| "enabled s ToggleDark = (\<not> isContentLoading s)"
| "enabled s (TypeSearch v) = (\<not> isContentLoading s)"
| "enabled s (ClickFilter f) = (\<not> isContentLoading s)"
| "enabled s ClickAddNew = (\<not> isContentLoading s)"
| "enabled s (TypeNewTitle v) = isAddModalOpen s"
| "enabled s (TypeNewDescription v) = (isAddModalOpen s \<and> length v \<le> MAX_CHARACTERS)"
| "enabled s (SelectNewStatus st) = isAddModalOpen s"
| "enabled s SubmitAdd =
     (isAddModalOpen s \<and> newTaskTitle s \<noteq> [] \<and>
      \<not> (isLoading s \<or> length (newTaskDescription s) > MAX_CHARACTERS))"
| "enabled s (AddTimerFires uuid localeDate) = (0 < addTimers s)"
| "enabled s CancelAdd = isAddModalOpen s"
| "enabled s (ClickEdit task) =
     (\<not> isContentLoading s \<and>
      task \<in> set (filteredTasks (tasks s) (searchTerm s) (filterStatus s)))"
| "enabled s (TypeEditTitle v) = (isEditModalOpen s \<and> currentTask s \<noteq> None)"
| "enabled s (TypeEditDescription v) =
     (isEditModalOpen s \<and> currentTask s \<noteq> None \<and> length v \<le> MAX_CHARACTERS)"
| "enabled s (SelectEditStatus st) = (isEditModalOpen s \<and> currentTask s \<noteq> None)"
| "enabled s CancelEdit = (isEditModalOpen s \<and> currentTask s \<noteq> None)"
| "enabled s SubmitEdit =
     (isEditModalOpen s \<and>
      (case currentTask s of
         None \<Rightarrow> False
       | Some ct \<Rightarrow> title ct \<noteq> [] \<and> \<not> length (description ct) > MAX_CHARACTERS))"
| "enabled s (ClickDelete task) =
     (\<not> isContentLoading s \<and>
      task \<in> set (filteredTasks (tasks s) (searchTerm s) (filterStatus s)))"
| "enabled s CancelDelete = isDeleteModalOpen s"
| "enabled s ConfirmDelete = isDeleteModalOpen s"

text \<open>
  Running a sequence of events from a state; \<open>None\<close> when the page cannot deliver one of
  them in the state reached.
\<close>

fun run :: "SeedDates \<Rightarrow> State \<Rightarrow> Event list \<Rightarrow> State option" where
  "run dates s [] = Some s"
| "run dates s (e # es) = (if enabled s e then run dates (fire dates e s) es else None)"




section \<open>Invariants and sample inputs\<close>

text \<open>
  Every stored description, and the description of the add form, is within the limit.
\<close>

definition descriptionsBounded :: "State \<Rightarrow> bool" where
  "descriptionsBounded s =
     (list_all (\<lambda>task. length (description task) \<le> MAX_CHARACTERS) (tasks s) \<and>
      length (newTaskDescription s) \<le> MAX_CHARACTERS)"

text \<open>The store of scenarios B and C of the specification, and one for a search for a space.\<close>

definition milkStore :: "Task list" where
  "milkStore =
     [\<lparr>id_t = ''a'', title = ''Buy milk'', description = [], status = Pending,
       createdAt = ''11/2/2026''\<rparr>,
      \<lparr>id_t = ''b'', title = ''Write report'', description = [], status = Completed,
       createdAt = ''11/2/2026''\<rparr>]"

definition spaceStore :: "Task list" where
  "spaceStore =
     [\<lparr>id_t = ''a'', title = ''Groceries'', description = [], status = Pending,
       createdAt = ''11/2/2026''\<rparr>,
      \<lparr>id_t = ''b'', title = ''Write report'', description = [], status = Completed,
       createdAt = ''11/2/2026''\<rparr>]"

definition sampleDates :: SeedDates where
  "sampleDates =
     \<lparr>dayBefore1 = ''11/1/2026'', dayBefore2 = ''10/31/2026'',
      dayBefore3 = ''10/30/2026'', dayOfLoad = ''11/2/2026''\<rparr>"

text \<open>Drafts in the add form: a blank title, and descriptions of 500 and of 501 characters.\<close>

definition blankDraft :: State where
  "blankDraft = (mounted False)\<lparr>tasks := milkStore, isAddModalOpen := True,
     newTaskTitle := ''   '', newTaskDescription := ''two litres''\<rparr>"

definition draft500 :: State where
  "draft500 = (mounted False)\<lparr>tasks := milkStore, isAddModalOpen := True,
     newTaskTitle := ''Call Ann'', newTaskDescription := replicate 500 (CHR ''d'')\<rparr>"

definition draft501 :: State where
  "draft501 = (mounted False)\<lparr>tasks := milkStore, isAddModalOpen := True,
     newTaskTitle := ''Call Ann'', newTaskDescription := replicate 501 (CHR ''d'')\<rparr>"

text \<open>A draft and a pending deletion whose id no stored task has.\<close>

definition ghostTask :: Task where
  "ghostTask = \<lparr>id_t = ''zz'', title = ''Ghost'', description = [], status = Pending,
                 createdAt = ''11/2/2026''\<rparr>"

definition ghostState :: State where
  "ghostState = (mounted False)\<lparr>tasks := milkStore, isEditModalOpen := True,
     isDeleteModalOpen := True, currentTask := Some ghostTask,
     pendingTaskToDelete := Some ghostTask\<rparr>"

text \<open>Event sequences used below.\<close>

definition addRun :: "Event list" where
  "addRun =
     [LoadTimerFires, ClickAddNew, TypeNewTitle ''Call Ann'',
      TypeNewDescription (replicate 500 (CHR ''d'')), SubmitAdd,
      AddTimerFires ''uuid-1'' ''11/2/2026'']"

definition submitRun :: "Event list" where
  "submitRun =
     [LoadTimerFires, ClickAddNew, TypeNewTitle ''Buy milk'',
      TypeNewDescription ''two litres'', SubmitAdd]"

definition editedWaitRun :: "Event list" where
  "editedWaitRun =
     submitRun @
     [TypeNewTitle ''Buy milk and eggs'', TypeNewDescription [], SelectNewStatus Completed,
      AddTimerFires ''uuid-1'' ''11/2/2026'']"


section \<open>Properties of the built-ins\<close>

lemma str_includes_iff_sublist: "str_includes s sub \<longleftrightarrow> sublist sub s"
  by (induction s) (auto simp: sublist_Cons_right)

lemma toLowerCase_empty_iff: "toLowerCase s = [] \<longleftrightarrow> s = []"
  by (simp add: toLowerCase_def)

lemma toLowerChar_whitespace: "isWhiteSpace c \<Longrightarrow> toLowerChar c = c"
  by (auto simp: isWhiteSpace_def toLowerChar_def Let_def)

lemma toLowerCase_whitespace: "\<forall>c\<in>set s. isWhiteSpace c \<Longrightarrow> toLowerCase s = s"
  by (induction s) (simp_all add: toLowerCase_def toLowerChar_whitespace)

lemma dropWhile_all_iff: "(\<forall>x\<in>set (dropWhile P xs). P x) \<longleftrightarrow> (\<forall>x\<in>set xs. P x)"
  by (induction xs) auto

lemma trim_empty_iff: "trim s = [] \<longleftrightarrow> (\<forall>c\<in>set s. isWhiteSpace c)"
  by (simp add: trim_def dropWhile_all_iff)

lemma filteredByStatus_filter:
  "filteredByStatus ts f = filter (spec_status_pred f) ts"
  by (cases f) (auto simp: filteredByStatus_def spec_status_pred_def intro: filter_cong)

lemma filteredTasks_filter:
  "filteredTasks ts term f = filter (spec_search_pred term) (filteredByStatus ts f)"
  by (cases "term")
     (auto simp: filteredTasks_def spec_search_pred_def str_includes_iff_sublist
           intro: filter_cong)

lemmas handler_defs = loadContent_def toggleDarkMode_def addTask_begin_def
  addTask_resume_def resetNewTaskForm_def handleCancelAddTask_def openEditModal_def
  saveEditedTask_def openDeleteModal_def closeDeleteModal_def deleteTask_def

section \<open>The visible set\<close>

text \<open>
  Claim C1. For every task collection, status filter and search term, the derived visible
  set equals the reference definition (status predicate, then search predicate on the
  lowercased strings), and it is a subsequence of the input: a subset, complete for the
  two predicates, in the input's order.
\<close>

theorem filteredTasks_refines_spec:
  "filteredTasks ts term f = spec_derived ts f term \<and>
   subseq (filteredTasks ts term f) ts \<and>
   set (filteredTasks ts term f) =
     {task \<in> set ts. spec_status_pred f task \<and> spec_search_pred term task}"
  by (auto simp: filteredTasks_filter filteredByStatus_filter spec_derived_def)

theorem filteredTasks_refines_spec_witness:
  "filteredTasks milkStore ''milk'' All_s = spec_derived milkStore All_s ''milk'' \<and>
   subseq (filteredTasks milkStore ''milk'' All_s) milkStore \<and>
   filteredTasks milkStore ''milk'' All_s = [hd milkStore]"
proof -
  have r: "filteredTasks milkStore ''milk'' All_s = [hd milkStore]"
    by code_simp
  from filteredTasks_refines_spec [of milkStore "''milk''" All_s] r show ?thesis
    by blast
qed

text \<open>
  Claim C9. The search is case-insensitive: two search terms that differ only in letter
  case, that is, with the same lowercase form, give the same visible set for every
  collection and status filter ("MILK" and "milk" for one).
\<close>

theorem search_case_insensitive:
  "toLowerCase term = toLowerCase term' \<Longrightarrow>
   filteredTasks ts term f = filteredTasks ts term' f"
  using toLowerCase_empty_iff [of "term"] toLowerCase_empty_iff [of term']
  by (simp add: filteredTasks_def)

theorem search_case_insensitive_witness:
  "toLowerCase ''MILK'' = toLowerCase ''milk'' \<and>
   filteredTasks milkStore ''MILK'' All_s = filteredTasks milkStore ''milk'' All_s \<and>
   filteredTasks milkStore ''milk'' All_s = [hd milkStore]"
proof -
  have h: "toLowerCase ''MILK'' = toLowerCase ''milk''"
    by code_simp
  have r: "filteredTasks milkStore ''milk'' All_s = [hd milkStore]"
    by code_simp
  from h r search_case_insensitive [OF h, of milkStore All_s] show ?thesis
    by (intro conjI)
qed

text \<open>
  Claim C10. The search term is never trimmed. A term that is not empty and consists of
  white space only is searched for as it is: the visible set keeps the tasks, among those
  passing the status filter, whose lowercased title or description contains that very
  string. The search filter is switched off, for all collections and status filters, by
  the empty term and by no other.
\<close>

theorem search_term_not_trimmed:
  "(term \<noteq> [] \<and> list_all isWhiteSpace term \<longrightarrow>
      filteredTasks ts term f =
        filter (\<lambda>task. str_includes (toLowerCase (title task)) term \<or>
                       str_includes (toLowerCase (description task)) term)
               (filteredByStatus ts f)) \<and>
   ((\<forall>ts' f'. filteredTasks ts' term f' = filteredByStatus ts' f') \<longleftrightarrow> term = [])"
proof (intro conjI impI iffI)
  assume "term \<noteq> [] \<and> list_all isWhiteSpace term"
  then show "filteredTasks ts term f =
        filter (\<lambda>task. str_includes (toLowerCase (title task)) term \<or>
                       str_includes (toLowerCase (description task)) term)
               (filteredByStatus ts f)"
    by (simp add: filteredTasks_def toLowerCase_whitespace list_all_iff)
next
  assume a: "\<forall>ts' f'. filteredTasks ts' term f' = filteredByStatus ts' f'"
  let ?blank = "\<lparr>id_t = [], title = [], description = [], status = Pending, createdAt = []\<rparr>"
  from a have "filteredTasks [?blank] term All_s = filteredByStatus [?blank] All_s"
    by blast
  then show "term = []"
    by (auto simp: filteredTasks_def filteredByStatus_def toLowerCase_def split: if_splits)
next
  assume "term = []"
  then show "\<forall>ts' f'. filteredTasks ts' term f' = filteredByStatus ts' f'"
    by (simp add: filteredTasks_def)
qed

theorem search_term_not_trimmed_witness:
  "list_all isWhiteSpace '' '' \<and>
   filteredTasks spaceStore '' '' All_s =
     filter (\<lambda>task. str_includes (toLowerCase (title task)) '' '' \<or>
                    str_includes (toLowerCase (description task)) '' '')
            (filteredByStatus spaceStore All_s) \<and>
   filteredTasks spaceStore '' '' All_s = [spaceStore ! 1] \<and>
   filteredTasks spaceStore [] All_s = spaceStore"
proof -
  have h: "'' '' \<noteq> [] \<and> list_all isWhiteSpace '' ''"
    by (simp add: isWhiteSpace_def)
  have r: "filteredTasks spaceStore '' '' All_s = [spaceStore ! 1]"
    by code_simp
  have e: "filteredTasks spaceStore [] All_s = spaceStore"
    by (simp add: filteredTasks_def filteredByStatus_def)
  from search_term_not_trimmed [of "'' ''" spaceStore All_s] h
  have "filteredTasks spaceStore '' '' All_s =
     filter (\<lambda>task. str_includes (toLowerCase (title task)) '' '' \<or>
                    str_includes (toLowerCase (description task)) '' '')
            (filteredByStatus spaceStore All_s)"
    by blast
  with h r e show ?thesis
    by (intro conjI) simp_all
qed

section \<open>Adding, updating and removing\<close>

text \<open>
  Claim C2. When the title of the draft is empty or white space only, or its description
  is longer than 500 characters, submitting the add form returns at the guard: no timer
  is set, so the append never runs, and the state, the collection with it, stays as it
  was. A description of exactly 500 characters (under a title that is not blank) is
  accepted: the call suspends and its completion makes the collection one longer. One of
  501 characters is rejected.
\<close>

theorem addTask_rejects_invalid_draft:
  "(trim (newTaskTitle s) = [] \<or> MAX_CHARACTERS < length (newTaskDescription s) \<longrightarrow>
      addTask_begin s = s) \<and>
   (trim (newTaskTitle s) \<noteq> [] \<and> length (newTaskDescription s) = 500 \<longrightarrow>
      addTimers (addTask_begin s) = Suc (addTimers s) \<and>
      length (tasks (addTask_resume uuid localeDate (addTask_begin s))) =
        Suc (length (tasks s))) \<and>
   (length (newTaskDescription s) = 501 \<longrightarrow> addTask_begin s = s)"
  by (simp add: addTask_begin_def addTask_resume_def resetNewTaskForm_def MAX_CHARACTERS_def)

theorem addTask_rejects_invalid_draft_witness:
  "trim (newTaskTitle blankDraft) = [] \<and> addTask_begin blankDraft = blankDraft \<and>
   length (newTaskDescription draft500) = 500 \<and>
   addTimers (addTask_begin draft500) = Suc (addTimers draft500) \<and>
   length (tasks (addTask_resume ''uuid-1'' ''11/2/2026'' (addTask_begin draft500))) =
     Suc (length (tasks draft500)) \<and>
   length (newTaskDescription draft501) = 501 \<and> addTask_begin draft501 = draft501"
proof -
  have h1: "trim (newTaskTitle blankDraft) = []"
    by (simp add: blankDraft_def trim_def isWhiteSpace_def)
  have h2: "trim (newTaskTitle draft500) \<noteq> [] \<and> length (newTaskDescription draft500) = 500"
    by (simp add: draft500_def trim_def isWhiteSpace_def)
  have h3: "length (newTaskDescription draft501) = 501"
    by (simp add: draft501_def)
  from h1 addTask_rejects_invalid_draft [where s = blankDraft]
  have c1: "addTask_begin blankDraft = blankDraft"
    by blast
  from h2 addTask_rejects_invalid_draft
             [where s = draft500 and uuid = "''uuid-1''" and localeDate = "''11/2/2026''"]
  have c2: "addTimers (addTask_begin draft500) = Suc (addTimers draft500) \<and>
     length (tasks (addTask_resume ''uuid-1'' ''11/2/2026'' (addTask_begin draft500))) =
       Suc (length (tasks draft500))"
    by blast
  from h3 addTask_rejects_invalid_draft [where s = draft501]
  have c3: "addTask_begin draft501 = draft501"
    by blast
  from h1 h2 h3 c1 c2 c3 show ?thesis
    by blast
qed

text \<open>
  An add that nothing interrupts. From a state where the form can be submitted and the
  title is not blank, Submit followed at once by the timer is a run of the page; Submit
  arms one timer, and the timer appends one task with the title, description and status of
  the form and the generated id, after the tasks stored before.
\<close>

lemma uninterrupted_add_appends_draft:
  assumes en: "enabled s SubmitAdd" and nb: "trim (newTaskTitle s) \<noteq> []"
  shows "addTimers (fire dates SubmitAdd s) = Suc (addTimers s) \<and>
         map_option tasks (run dates s [SubmitAdd, AddTimerFires uuid localeDate]) =
           Some (tasks s @
                 [\<lparr>id_t = uuid, title = newTaskTitle s, description = newTaskDescription s,
                   status = newTaskStatus s, createdAt = localeDate\<rparr>])"
  using en nb
  by (simp add: addTask_begin_def addTask_resume_def resetNewTaskForm_def)

text \<open>
  Claim C7, evaluated on the code. The draft "Buy milk", "two litres", Pending is valid and
  Submit accepts it: one timer is armed. During the wait the inputs of the form stay
  enabled; the title is extended, the description cleared and the status changed. When the
  timer fires, the rest of \<^verbatim>\<open>addTask\<close> reads the component variables again, and the task
  appended carries the later values, not the submitted ones.
\<close>

theorem edit_during_wait_stores_other_draft:
  "map_option addTimers (run sampleDates (mounted False) submitRun) = Some 1 \<and>
   map_option newTaskTitle (run sampleDates (mounted False) submitRun) = Some ''Buy milk'' \<and>
   map_option tasks (run sampleDates (mounted False) editedWaitRun) =
     Some (initialTasks sampleDates @
           [\<lparr>id_t = ''uuid-1'', title = ''Buy milk and eggs'', description = [],
             status = Completed, createdAt = ''11/2/2026''\<rparr>])"
  by (simp add: submitRun_def editedWaitRun_def mounted_def handler_defs MAX_CHARACTERS_def
        trim_def isWhiteSpace_def)

text \<open>
  Claim C8. When the collection holds no task with the id in question, saving an edit
  whose draft carries that id, and confirming the deletion of that id, both leave the
  collection as it was, element for element. The two handlers are total: they return a
  state and have no failing branch.
\<close>

theorem absent_id_noop:
  "(currentTask s = Some ct \<and> id_t ct \<notin> id_t ` set (tasks s) \<longrightarrow>
      tasks (saveEditedTask s) = tasks s) \<and>
   (pendingTaskToDelete s = Some p \<and> id_t p \<notin> id_t ` set (tasks s) \<longrightarrow>
      tasks (deleteTask s) = tasks s)"
proof (intro conjI impI)
  assume a: "currentTask s = Some ct \<and> id_t ct \<notin> id_t ` set (tasks s)"
  then have "map (\<lambda>task. if id_t task = id_t ct then ct else task) (tasks s) = tasks s"
    by (intro map_idI) (metis imageI)
  with a show "tasks (saveEditedTask s) = tasks s"
    by (simp add: saveEditedTask_def)
next
  assume a: "pendingTaskToDelete s = Some p \<and> id_t p \<notin> id_t ` set (tasks s)"
  then have "filter (\<lambda>task. id_t task \<noteq> id_t p) (tasks s) = tasks s"
    by (intro filter_True) (metis imageI)
  with a show "tasks (deleteTask s) = tasks s"
    by (simp add: deleteTask_def closeDeleteModal_def)
qed

theorem absent_id_noop_witness:
  "currentTask ghostState = Some ghostTask \<and>
   pendingTaskToDelete ghostState = Some ghostTask \<and>
   id_t ghostTask \<notin> id_t ` set (tasks ghostState) \<and>
   tasks (saveEditedTask ghostState) = milkStore \<and>
   tasks (deleteTask ghostState) = milkStore"
proof -
  have h1: "currentTask ghostState = Some ghostTask"
    and h2: "pendingTaskToDelete ghostState = Some ghostTask"
    and t: "tasks ghostState = milkStore"
    by (simp_all add: ghostState_def mounted_def)
  have h3: "id_t ghostTask \<notin> id_t ` set (tasks ghostState)"
    by (simp add: ghostState_def mounted_def ghostTask_def milkStore_def)
  from absent_id_noop [of ghostState ghostTask ghostTask] h1 h2 h3 t show ?thesis
    by simp
qed

section \<open>What the page can reach\<close>

lemma initialTasks_bounded:
  "list_all (\<lambda>task. length (description task) \<le> MAX_CHARACTERS) (initialTasks dates)"
  by (simp add: initialTasks_def MAX_CHARACTERS_def)

lemma mounted_bounded: "descriptionsBounded (mounted prefersDark)"
  by (simp add: descriptionsBounded_def mounted_def)

lemma fire_bounded:
  assumes en: "enabled s e" and inv: "descriptionsBounded s"
  shows "descriptionsBounded (fire dates e s)"
proof (cases e)
  case LoadTimerFires
  with inv initialTasks_bounded [of dates] show ?thesis
    by (simp add: descriptionsBounded_def loadContent_def)
next
  case SubmitEdit
  with inv show ?thesis
    by (auto simp: descriptionsBounded_def saveEditedTask_def list_all_iff split: option.splits)
next
  case ConfirmDelete
  with inv show ?thesis
    by (auto simp: descriptionsBounded_def deleteTask_def closeDeleteModal_def list_all_iff
             split: option.splits)
qed (use en inv in \<open>simp_all add: descriptionsBounded_def toggleDarkMode_def addTask_begin_def
       addTask_resume_def resetNewTaskForm_def handleCancelAddTask_def openEditModal_def
       openDeleteModal_def closeDeleteModal_def\<close>)

lemma run_bounded:
  "descriptionsBounded s \<Longrightarrow> run dates s es = Some s' \<Longrightarrow> descriptionsBounded s'"
proof (induction es arbitrary: s)
  case Nil
  then show ?case by simp
next
  case (Cons e es)
  then show ?case
    by (auto split: if_splits intro: fire_bounded)
qed

lemma addRun_runs:
  "map_option tasks (run sampleDates (mounted False) addRun) =
   Some (initialTasks sampleDates @
         [\<lparr>id_t = ''uuid-1'', title = ''Call Ann'', description = replicate 500 (CHR ''d''),
           status = Pending, createdAt = ''11/2/2026''\<rparr>])"
  by (simp add: addRun_def mounted_def handler_defs MAX_CHARACTERS_def trim_def
        isWhiteSpace_def)

text \<open>
  Claim C3. In every state the page reaches from the mounted component, whatever the
  sequence of events, each stored task has a description of at most 500 characters. This
  covers the bootstrap tasks that the load timer installs, the tasks that add appends and
  the tasks that edit-save puts in place of others.
\<close>

theorem stored_descriptions_bounded:
  "run dates (mounted prefersDark) es = Some s \<Longrightarrow>
   \<forall>task\<in>set (tasks s). length (description task) \<le> MAX_CHARACTERS"
  using run_bounded [OF mounted_bounded]
  by (simp add: descriptionsBounded_def list_all_iff)

theorem stored_descriptions_bounded_witness:
  "map_option tasks (run sampleDates (mounted False) addRun) =
   Some (initialTasks sampleDates @
         [\<lparr>id_t = ''uuid-1'', title = ''Call Ann'', description = replicate 500 (CHR ''d''),
           status = Pending, createdAt = ''11/2/2026''\<rparr>]) \<and>
   list_all (\<lambda>task. length (description task) \<le> MAX_CHARACTERS)
     (initialTasks sampleDates @
         [\<lparr>id_t = ''uuid-1'', title = ''Call Ann'', description = replicate 500 (CHR ''d''),
           status = Pending, createdAt = ''11/2/2026''\<rparr>])"
proof -
  from addRun_runs obtain s where
    r: "run sampleDates (mounted False) addRun = Some s" and
    t: "tasks s = initialTasks sampleDates @
         [\<lparr>id_t = ''uuid-1'', title = ''Call Ann'', description = replicate 500 (CHR ''d''),
           status = Pending, createdAt = ''11/2/2026''\<rparr>]"
    by auto
  from stored_descriptions_bounded [OF r] t addRun_runs show ?thesis
    by (simp add: list_all_iff)
qed

text \<open>
  Claim C4, evaluated on the code. \<^verbatim>\<open>saveEditedTask\<close> checks the length of the description
  and nothing else. Once the bootstrap tasks are loaded: Edit on the first card, a single
  space typed as the title (the \<^verbatim>\<open>required\<close> input accepts it), Save. The first stored
  task then has a title that \<^verbatim>\<open>trim\<close> empties.
\<close>

theorem edit_stores_blank_title:
  "map_option tasks
     (run sampleDates (mounted False)
        [LoadTimerFires, ClickEdit (hd (initialTasks sampleDates)), TypeEditTitle '' '',
         SubmitEdit]) =
   Some ((hd (initialTasks sampleDates))\<lparr>title := '' ''\<rparr> # tl (initialTasks sampleDates)) \<and>
   trim '' '' = []"
  by (simp add: mounted_def handler_defs MAX_CHARACTERS_def trim_def isWhiteSpace_def
        filteredTasks_def filteredByStatus_def initialTasks_def)

text \<open>
  Claim C5, evaluated on the code. The add form is submitted with the title "Buy milk";
  before the timer fires, Cancel resets the form. When the timer fires, the rest of
  \<^verbatim>\<open>addTask\<close> reads the component variables again and appends a task made of the reset
  form: empty title, empty description, status Pending.
\<close>

theorem cancelled_add_appends_blank_task:
  "map_option tasks
     (run sampleDates (mounted False)
        [LoadTimerFires, ClickAddNew, TypeNewTitle ''Buy milk'', SubmitAdd, CancelAdd,
         AddTimerFires ''uuid-1'' ''11/2/2026'']) =
   Some (initialTasks sampleDates @
         [\<lparr>id_t = ''uuid-1'', title = [], description = [], status = Pending,
           createdAt = ''11/2/2026''\<rparr>])"
  by (simp add: mounted_def handler_defs MAX_CHARACTERS_def trim_def isWhiteSpace_def)

section \<open>The modal flags\<close>








end
